theory Spec2Isabelle
  imports Complex_Main "HOL-Library.Sublist"
begin

section \<open>Strings of the prompt builder\<close>

text \<open>
  A JavaScript string is modelled as a \<^typ>\<open>string\<close>, one \<^typ>\<open>char\<close> per UTF-16 code
  unit. Every character of the literals of \<^verbatim>\<open>useImageNodeHandlers.ts\<close> is ASCII except
  the degree sign U+00B0, which is the single code unit \<open>0xB0\<close>.
\<close>

definition degree_sign :: string where
  "degree_sign = [CHR 0xB0]"

text \<open>
  \<^verbatim>\<open>${n}\<close> for a number \<open>n\<close> that is a non-negative integer: its decimal digits, most
  significant first, no leading zero. The angle settings are written by the range sliders
  of \<^verbatim>\<open>ChangeAnglePanel.tsx\<close> through \<^verbatim>\<open>parseInt(e.target.value, 10)\<close>, so they are
  integers; JavaScript prints an integer below \<open>10^21\<close> this way.
\<close>

definition digit_char :: "nat \<Rightarrow> char" where
  "digit_char d = ''0123456789'' ! d"

fun Number_toString :: "nat \<Rightarrow> string" where
  "Number_toString n =
     (if n < 10 then [digit_char n]
      else Number_toString (n div 10) @ [digit_char (n mod 10)])"

declare Number_toString.simps [simp del]

text \<open>\<^verbatim>\<open>Math.abs(v)\<close> of an integer \<open>v\<close>, inside a template literal.\<close>

definition Math_abs_toString :: "int \<Rightarrow> string" where
  "Math_abs_toString v = Number_toString (nat \<bar>v\<bar>)"

text \<open>\<^verbatim>\<open>Array.prototype.join(sep)\<close> on an array of strings.\<close>

fun join :: "string \<Rightarrow> string list \<Rightarrow> string" where
  "join sep [] = []"
| "join sep [p] = p"
| "join sep (p # q # ps) = p @ sep @ join sep (q # ps)"

section \<open>Angle settings and \<^verbatim>\<open>buildAnglePrompt\<close>\<close>

record AngleSettings =
  rotation :: int
  tilt :: int
  scale :: int
  wideAngle :: bool

text \<open>The string literals pushed by \<^verbatim>\<open>buildAnglePrompt\<close>, in source order.\<close>

definition PREAMBLE :: string where
  "PREAMBLE = ''Create a new photograph of this exact same person/subject from a different camera viewing angle. Keep the same scene, lighting, clothing, and background. Only change the camera position.''"

definition rotate_right :: "int \<Rightarrow> string" where
  "rotate_right r = ''Move the camera '' @ Math_abs_toString r @ degree_sign @ '' to the right side of the subject, as if walking around them clockwise.''"

definition rotate_left :: "int \<Rightarrow> string" where
  "rotate_left r = ''Move the camera '' @ Math_abs_toString r @ degree_sign @ '' to the left side of the subject, as if walking around them counter-clockwise.''"

definition tilt_up :: "int \<Rightarrow> string" where
  "tilt_up t = ''Raise the camera viewpoint '' @ Math_abs_toString t @ degree_sign @ '' higher, looking slightly down at the subject.''"

definition tilt_down :: "int \<Rightarrow> string" where
  "tilt_down t = ''Lower the camera viewpoint '' @ Math_abs_toString t @ degree_sign @ '' lower, looking slightly up at the subject.''"

definition CLOSER_TIGHT :: string where
  "CLOSER_TIGHT = ''Position the camera closer to the subject for a tighter frame.''"

definition SLIGHTLY_CLOSER :: string where
  "SLIGHTLY_CLOSER = ''Move the camera slightly closer to the subject.''"

definition WIDE_ANGLE :: string where
  "WIDE_ANGLE = ''Use wide-angle lens perspective with slight barrel distortion at edges.''"

definition ORIENTATION :: string where
  "ORIENTATION = ''IMPORTANT: Do NOT rotate or flip the final image. The subject should remain upright and properly oriented.''"

text \<open>
  \<^verbatim>\<open>buildAnglePrompt\<close>: the array \<open>parts\<close> is threaded through the five statements that
  push onto it, each \<^verbatim>\<open>parts.push(s)\<close> being \<open>parts @ [s]\<close>.
\<close>

definition buildAnglePrompt :: "AngleSettings \<Rightarrow> string" where
  "buildAnglePrompt settings =
     (let parts0 = [];
          parts1 = parts0 @ [PREAMBLE];
          parts2 = (if rotation settings \<noteq> 0
                    then (if rotation settings > 0
                          then parts1 @ [rotate_right (rotation settings)]
                          else parts1 @ [rotate_left (rotation settings)])
                    else parts1);
          parts3 = (if tilt settings \<noteq> 0
                    then (if tilt settings > 0
                          then parts2 @ [tilt_up (tilt settings)]
                          else parts2 @ [tilt_down (tilt settings)])
                    else parts2);
          parts4 = (if scale settings > 50 then parts3 @ [CLOSER_TIGHT]
                    else if scale settings > 0 then parts3 @ [SLIGHTLY_CLOSER]
                    else parts3);
          parts5 = (if wideAngle settings then parts4 @ [WIDE_ANGLE] else parts4);
          parts6 = parts5 @ [ORIENTATION]
      in join '' '' parts6)"

section \<open>Canvas nodes\<close>

text \<open>
  Modelled from the spec: \<^verbatim>\<open>NodeType\<close>, \<^verbatim>\<open>NodeStatus\<close> and \<^verbatim>\<open>NodeData\<close> are declared in
  \<^verbatim>\<open>src/types\<close>, which is not part of the sources at hand. The spec gives the variants
  \<open>{IMAGE, VIDEO, \<dots>}\<close> and \<open>{IDLE, LOADING, \<dots>}\<close>; the last constructor of each datatype
  stands for the variants it leaves open. \<open>NodeData\<close> has the fields the handlers read or
  write (\<open>id\<close>, \<open>type\<close>, \<open>x\<close> and \<open>y\<close> carry the prefix \<open>node_\<close>, since \<open>id\<close> is a HOL
  constant and \<open>x\<close>, \<open>y\<close> are needed as variables); \<open>otherProps\<close> holds every further
  property of a node, which the handlers never name and an object spread copies.
  Optional properties are options, \<open>None\<close> being \<^verbatim>\<open>undefined\<close>. Coordinates are
  JavaScript numbers, taken here as real numbers: rounding of the two additions is not
  part of the model.
\<close>

datatype NodeType = IMAGE | VIDEO | OtherNodeType string

datatype NodeStatus = IDLE | LOADING | OtherNodeStatus string

record 'v NodeData =
  node_id :: string
  node_type :: NodeType
  node_x :: real
  node_y :: real
  prompt :: string
  status :: NodeStatus
  model :: string
  imageModel :: "string option"
  aspectRatio :: "string option"
  resolution :: "string option"
  parentIds :: "string list"
  angleSettings :: "AngleSettings option"
  angleMode :: "bool option"
  otherProps :: "(string \<times> 'v) list"

text \<open>\<^verbatim>\<open>a || d\<close> for an optional string \<open>a\<close>: \<^verbatim>\<open>undefined\<close> and the empty string are falsy.\<close>

definition or_default :: "string option \<Rightarrow> string \<Rightarrow> string" where
  "or_default a d = (case a of None \<Rightarrow> d | Some v \<Rightarrow> if v = [] then d else v)"

section \<open>Effects of a handler\<close>

text \<open>
  A handler of \<^verbatim>\<open>useImageNodeHandlers\<close> returns nothing; what it does is the sequence of
  calls it makes on its collaborators: \<^verbatim>\<open>setNodes(updater)\<close>, \<^verbatim>\<open>setSelectedNodeIds(ids)\<close>,
  \<^verbatim>\<open>requestAnimationFrame(callback)\<close>, and, inside a callback, \<^verbatim>\<open>onGenerateNode(id)\<close>.
  A callback is the list of calls of its body. \<open>'g\<close> names the generation trigger.
  \<^verbatim>\<open>console.log\<close> is left out.
\<close>

datatype ('v, 'g) effect =
    SetNodes "'v NodeData list \<Rightarrow> 'v NodeData list"
  | SetSelectedNodeIds "string list"
  | RequestAnimationFrame "('v, 'g) effect list"
  | OnGenerateNode 'g string

text \<open>
  The state the calls act on: the node store and the selection (the two pieces of React
  state behind \<^verbatim>\<open>setNodes\<close> and \<^verbatim>\<open>setSelectedNodeIds\<close>), the browser's list of animation
  frame callbacks, and the calls the generation trigger has received so far, each with
  its argument and the node store at the moment of the call. A state update takes
  effect where it is requested: React commits the updates of a handler before the
  browser next runs animation frame callbacks, and the model has no state in between.
\<close>

record ('v, 'g) app =
  st_nodes :: "'v NodeData list"
  st_selectedNodeIds :: "string list"
  st_frameCallbacks :: "('v, 'g) effect list list"
  st_triggered :: "('g \<times> string \<times> 'v NodeData list) list"

fun perform :: "('v, 'g) effect \<Rightarrow> ('v, 'g) app \<Rightarrow> ('v, 'g) app" where
  "perform (SetNodes updater) s = s\<lparr>st_nodes := updater (st_nodes s)\<rparr>"
| "perform (SetSelectedNodeIds ids) s = s\<lparr>st_selectedNodeIds := ids\<rparr>"
| "perform (RequestAnimationFrame callback) s =
     s\<lparr>st_frameCallbacks := st_frameCallbacks s @ [callback]\<rparr>"
| "perform (OnGenerateNode g nodeId) s =
     s\<lparr>st_triggered := st_triggered s @ [(g, nodeId, st_nodes s)]\<rparr>"

definition run :: "('v, 'g) effect list \<Rightarrow> ('v, 'g) app \<Rightarrow> ('v, 'g) app" where
  "run effects s = fold perform effects s"


text \<open>
  One animation frame: the browser takes the callbacks registered so far, empties the
  list, and runs them in order; a callback registered while they run waits for the
  next frame.
\<close>

definition frame :: "('v, 'g) app \<Rightarrow> ('v, 'g) app" where
  "frame s = fold run (st_frameCallbacks s) (s\<lparr>st_frameCallbacks := []\<rparr>)"


section \<open>The handlers of \<^verbatim>\<open>useImageNodeHandlers\<close>\<close>

text \<open>
  Each handler takes the value \<^verbatim>\<open>crypto.randomUUID()\<close> returns to it, the \<open>nodes\<close> the
  hook was rendered with, and the id of the node acted on.
\<close>

definition handleImageToImage ::
  "string \<Rightarrow> 'v NodeData list \<Rightarrow> string \<Rightarrow> ('v, 'g) effect list" where
  "handleImageToImage randomUUID nodes nodeId =
     (case find (\<lambda>n. node_id n = nodeId) nodes of
        None \<Rightarrow> []
      | Some imageNode \<Rightarrow>
          (let newNodeId = randomUUID;
               GAP = 100;
               NODE_WIDTH = 340;
               newImageNode = \<lparr>
                 node_id = newNodeId,
                 node_type = IMAGE,
                 node_x = node_x imageNode + NODE_WIDTH + GAP,
                 node_y = node_y imageNode,
                 prompt = [],
                 status = IDLE,
                 model = ''Banana Pro'',
                 imageModel = None,
                 aspectRatio = Some ''Auto'',
                 resolution = Some ''Auto'',
                 parentIds = [nodeId],
                 angleSettings = None,
                 angleMode = None,
                 otherProps = []\<rparr>
           in [SetNodes (\<lambda>prev. prev @ [newImageNode]),
               SetSelectedNodeIds [newNodeId]]))"

definition handleImageToVideo ::
  "string \<Rightarrow> 'v NodeData list \<Rightarrow> string \<Rightarrow> ('v, 'g) effect list" where
  "handleImageToVideo randomUUID nodes nodeId =
     (case find (\<lambda>n. node_id n = nodeId) nodes of
        None \<Rightarrow> []
      | Some imageNode \<Rightarrow>
          (let newNodeId = randomUUID;
               GAP = 100;
               NODE_WIDTH = 340;
               newVideoNode = \<lparr>
                 node_id = newNodeId,
                 node_type = VIDEO,
                 node_x = node_x imageNode + NODE_WIDTH + GAP,
                 node_y = node_y imageNode,
                 prompt = [],
                 status = IDLE,
                 model = ''Banana Pro'',
                 imageModel = None,
                 aspectRatio = Some ''Auto'',
                 resolution = Some ''Auto'',
                 parentIds = [nodeId],
                 angleSettings = None,
                 angleMode = None,
                 otherProps = []\<rparr>
           in [SetNodes (\<lambda>prev. prev @ [newVideoNode]),
               SetSelectedNodeIds [newNodeId]]))"

definition handleChangeAngleGenerate ::
  "string \<Rightarrow> 'v NodeData list \<Rightarrow> 'g option \<Rightarrow> string \<Rightarrow> ('v, 'g) effect list" where
  "handleChangeAngleGenerate randomUUID nodes onGenerateNode nodeId =
     (case find (\<lambda>n. node_id n = nodeId) nodes of
        None \<Rightarrow> []
      | Some imageNode \<Rightarrow>
          (case angleSettings imageNode of
             None \<Rightarrow> []
           | Some settings \<Rightarrow>
               (let newNodeId = randomUUID;
                    GAP = 100;
                    NODE_WIDTH = 340;
                    anglePrompt = buildAnglePrompt settings;
                    newImageNode = \<lparr>
                      node_id = newNodeId,
                      node_type = IMAGE,
                      node_x = node_x imageNode + NODE_WIDTH + GAP,
                      node_y = node_y imageNode,
                      prompt = anglePrompt,
                      status = IDLE,
                      model = ''Banana Pro'',
                      imageModel = Some ''gemini-pro'',
                      aspectRatio = Some (or_default (aspectRatio imageNode) ''Auto''),
                      resolution = Some (or_default (resolution imageNode) ''Auto''),
                      parentIds = [nodeId],
                      angleSettings = None,
                      angleMode = None,
                      otherProps = []\<rparr>
                in [SetNodes (\<lambda>prev.
                      map (\<lambda>n. if node_id n = nodeId then n\<lparr>angleMode := Some False\<rparr> else n) prev
                      @ [newImageNode]),
                    SetSelectedNodeIds [newNodeId]]
                   @ (case onGenerateNode of
                        None \<Rightarrow> []
                      | Some g \<Rightarrow>
                          [RequestAnimationFrame
                             [RequestAnimationFrame [OnGenerateNode g newNodeId]]]))))"

section \<open>The context menu controller \<^verbatim>\<open>useContextMenu\<close>\<close>

text \<open>
  Modelled from the spec: \<^verbatim>\<open>ContextMenuState\<close> is declared in \<^verbatim>\<open>src/types\<close>, which is not
  part of the sources at hand. Its fields are the ones the hook writes; the type is a
  variant over \<^verbatim>\<open>'global'\<close>, \<^verbatim>\<open>'node-connector'\<close> and \<^verbatim>\<open>'node-options'\<close>, the connector side
  one of \<^verbatim>\<open>'left'\<close> and \<^verbatim>\<open>'right'\<close>. \<open>x\<close>, \<open>y\<close> and \<open>type\<close> carry the prefix \<open>menu_\<close>.
\<close>

datatype MenuType = Global | NodeConnector | NodeOptions

datatype ConnectorSide = LeftSide | RightSide

record ContextMenuState =
  isOpen :: bool
  menu_x :: real
  menu_y :: real
  menu_type :: MenuType
  sourceNodeId :: "string option"
  connectorSide :: "ConnectorSide option"

text \<open>
  What the handlers read of a \<^verbatim>\<open>React.MouseEvent\<close>: the id of \<^verbatim>\<open>e.target\<close>, the pointer
  position, and the right and top edges of \<^verbatim>\<open>e.currentTarget.getBoundingClientRect()\<close>;
  and of \<^verbatim>\<open>window\<close>: its inner width and height. \<^verbatim>\<open>e.preventDefault()\<close> and
  \<^verbatim>\<open>e.stopPropagation()\<close> do not touch the menu state and are left out.
\<close>

record MouseEvent =
  target_id :: string
  clientX :: real
  clientY :: real
  rect_right :: real
  rect_top :: real

record Window =
  innerWidth :: real
  innerHeight :: real

text \<open>The argument of \<^verbatim>\<open>useState\<close>.\<close>

definition initialContextMenu :: ContextMenuState where
  "initialContextMenu =
     \<lparr>isOpen = False, menu_x = 0, menu_y = 0, menu_type = Global,
      sourceNodeId = None, connectorSide = None\<rparr>"

text \<open>Each handler is the function from the state before its call to the state after.\<close>

definition closeContextMenu :: "ContextMenuState \<Rightarrow> ContextMenuState" where
  "closeContextMenu prev = prev\<lparr>isOpen := False\<rparr>"

definition handleDoubleClick :: "MouseEvent \<Rightarrow> ContextMenuState \<Rightarrow> ContextMenuState" where
  "handleDoubleClick e prev =
     (if target_id e = ''canvas-background''
      then \<lparr>isOpen = True, menu_x = clientX e, menu_y = clientY e, menu_type = Global,
            sourceNodeId = None, connectorSide = None\<rparr>
      else prev)"

definition handleGlobalContextMenu ::
  "MouseEvent \<Rightarrow> ContextMenuState \<Rightarrow> ContextMenuState" where
  "handleGlobalContextMenu e prev =
     (if target_id e = ''canvas-background''
      then \<lparr>isOpen = True, menu_x = clientX e, menu_y = clientY e, menu_type = Global,
            sourceNodeId = None, connectorSide = None\<rparr>
      else prev)"

definition handleToolbarAdd :: "MouseEvent \<Rightarrow> ContextMenuState \<Rightarrow> ContextMenuState" where
  "handleToolbarAdd e prev =
     \<lparr>isOpen = True, menu_x = rect_right e + 10, menu_y = rect_top e, menu_type = Global,
      sourceNodeId = None, connectorSide = None\<rparr>"

definition openConnectorMenu ::
  "Window \<Rightarrow> string \<Rightarrow> ConnectorSide \<Rightarrow> ContextMenuState \<Rightarrow> ContextMenuState" where
  "openConnectorMenu window nodeId direction prev =
     \<lparr>isOpen = True, menu_x = innerWidth window / 2, menu_y = innerHeight window / 2,
      menu_type = NodeConnector, sourceNodeId = Some nodeId,
      connectorSide = Some direction\<rparr>"

definition openNodeOptionsMenu ::
  "MouseEvent \<Rightarrow> string \<Rightarrow> ContextMenuState \<Rightarrow> ContextMenuState" where
  "openNodeOptionsMenu e nodeId prev =
     \<lparr>isOpen = True, menu_x = clientX e, menu_y = clientY e, menu_type = NodeOptions,
      sourceNodeId = Some nodeId, connectorSide = None\<rparr>"

text \<open>
  \<^verbatim>\<open>handleContextMenuSelect\<close> hands \<^verbatim>\<open>closeContextMenu\<close> to the dispatcher it was given,
  which is outside the hook; the flag says whether the dispatcher calls it.
\<close>

definition handleContextMenuSelect :: "bool \<Rightarrow> ContextMenuState \<Rightarrow> ContextMenuState" where
  "handleContextMenuSelect dispatcherCloses prev =
     (if dispatcherCloses then closeContextMenu prev else prev)"

text \<open>
  The calls a client of the hook can make, the hook's own setter \<^verbatim>\<open>setContextMenu\<close>
  among them, and the state after a sequence of calls.
\<close>

datatype menu_call =
    CloseContextMenu
  | HandleDoubleClick MouseEvent
  | HandleGlobalContextMenu MouseEvent
  | HandleToolbarAdd MouseEvent
  | HandleContextMenuSelect bool
  | OpenConnectorMenu string ConnectorSide
  | OpenNodeOptionsMenu MouseEvent string
  | SetContextMenu "ContextMenuState \<Rightarrow> ContextMenuState"

fun menu_step :: "Window \<Rightarrow> menu_call \<Rightarrow> ContextMenuState \<Rightarrow> ContextMenuState" where
  "menu_step w CloseContextMenu s = closeContextMenu s"
| "menu_step w (HandleDoubleClick e) s = handleDoubleClick e s"
| "menu_step w (HandleGlobalContextMenu e) s = handleGlobalContextMenu e s"
| "menu_step w (HandleToolbarAdd e) s = handleToolbarAdd e s"
| "menu_step w (HandleContextMenuSelect c) s = handleContextMenuSelect c s"
| "menu_step w (OpenConnectorMenu nodeId direction) s = openConnectorMenu w nodeId direction s"
| "menu_step w (OpenNodeOptionsMenu e nodeId) s = openNodeOptionsMenu e nodeId s"
| "menu_step w (SetContextMenu f) s = f s"

definition menu_after :: "Window \<Rightarrow> menu_call list \<Rightarrow> ContextMenuState" where
  "menu_after w calls = fold (menu_step w) calls initialContextMenu"

text \<open>
  The open calls of the spec: \<open>openGlobalMenu\<close> is a double click or a right click whose
  target is the canvas background, or a click on the toolbar's add button;
  \<open>openConnectorMenu\<close> and \<open>openNodeOptionsMenu\<close> are the handlers of these names. Each
  asks for a menu at a position, of a type, for a source node.
\<close>

fun is_open_call :: "menu_call \<Rightarrow> bool" where
  "is_open_call (HandleDoubleClick e) = (target_id e = ''canvas-background'')"
| "is_open_call (HandleGlobalContextMenu e) = (target_id e = ''canvas-background'')"
| "is_open_call (HandleToolbarAdd e) = True"
| "is_open_call (OpenConnectorMenu nodeId direction) = True"
| "is_open_call (OpenNodeOptionsMenu e nodeId) = True"
| "is_open_call other = False"

fun requested_position :: "Window \<Rightarrow> menu_call \<Rightarrow> real \<times> real" where
  "requested_position w (HandleDoubleClick e) = (clientX e, clientY e)"
| "requested_position w (HandleGlobalContextMenu e) = (clientX e, clientY e)"
| "requested_position w (HandleToolbarAdd e) = (rect_right e + 10, rect_top e)"
| "requested_position w (OpenConnectorMenu nodeId direction) =
     (innerWidth w / 2, innerHeight w / 2)"
| "requested_position w (OpenNodeOptionsMenu e nodeId) = (clientX e, clientY e)"
| "requested_position w other = (0, 0)"

fun requested_type :: "menu_call \<Rightarrow> MenuType" where
  "requested_type (OpenConnectorMenu nodeId direction) = NodeConnector"
| "requested_type (OpenNodeOptionsMenu e nodeId) = NodeOptions"
| "requested_type other = Global"

fun requested_source :: "menu_call \<Rightarrow> string option" where
  "requested_source (OpenConnectorMenu nodeId direction) = Some nodeId"
| "requested_source (OpenNodeOptionsMenu e nodeId) = Some nodeId"
| "requested_source other = None"

text \<open>
  The menus a state shows: the menu of its type when \<open>isOpen\<close> holds, none otherwise.
\<close>

definition open_menus :: "ContextMenuState \<Rightarrow> MenuType list" where
  "open_menus s = filter (\<lambda>k. isOpen s \<and> menu_type s = k) [Global, NodeConnector, NodeOptions]"

section \<open>The prompt synthesis algorithm of the spec\<close>






section \<open>Example inputs\<close>

definition settings_45 :: AngleSettings where
  "settings_45 = \<lparr>rotation = 45, tilt = 0, scale = 0, wideAngle = False\<rparr>"

definition settings_30 :: AngleSettings where
  "settings_30 = \<lparr>rotation = - 30, tilt = 20, scale = 60, wideAngle = True\<rparr>"

definition example_source :: "unit NodeData" where
  "example_source =
     \<lparr>node_id = ''a'', node_type = IMAGE, node_x = 10, node_y = 20, prompt = ''a cat'',
      status = LOADING, model = ''Other'', imageModel = Some ''flash'',
      aspectRatio = Some ''16:9'', resolution = None, parentIds = [],
      angleSettings = Some settings_45, angleMode = Some True, otherProps = [(''title'', ())]\<rparr>"

definition example_plain :: "unit NodeData" where
  "example_plain =
     \<lparr>node_id = ''b'', node_type = IMAGE, node_x = 0, node_y = 0, prompt = [],
      status = IDLE, model = ''Banana Pro'', imageModel = None,
      aspectRatio = None, resolution = None, parentIds = [''a''],
      angleSettings = None, angleMode = None, otherProps = []\<rparr>"

definition example_app :: "(unit, unit) app" where
  "example_app =
     \<lparr>st_nodes = [example_source, example_plain], st_selectedNodeIds = [''a''],
      st_frameCallbacks = [], st_triggered = []\<rparr>"

fun is_SetContextMenu :: "menu_call \<Rightarrow> bool" where
  "is_SetContextMenu (SetContextMenu f) = True"
| "is_SetContextMenu other = False"

definition example_click :: MouseEvent where
  "example_click =
     \<lparr>target_id = ''canvas-background'', clientX = 120, clientY = 80,
      rect_right = 48, rect_top = 16\<rparr>"

definition example_node_click :: MouseEvent where
  "example_node_click =
     \<lparr>target_id = ''node-card'', clientX = 300, clientY = 200,
      rect_right = 640, rect_top = 180\<rparr>"

definition example_window :: Window where
  "example_window = \<lparr>innerWidth = 1280, innerHeight = 720\<rparr>"

section \<open>Helper lemmas\<close>


lemma find_id_None:
  "nodeId \<notin> node_id ` set ns \<Longrightarrow> find (\<lambda>n. node_id n = nodeId) ns = None"
  by (auto simp: find_None_iff)

lemma sublist_append_prefixD: "sublist (a @ b) p \<Longrightarrow> sublist a p"
  by (auto simp: sublist_def)

lemma example_find_a:
  "find (\<lambda>n. node_id n = ''a'') (st_nodes example_app) = Some example_source"
  by (simp add: example_app_def example_source_def)

lemma example_find_b:
  "find (\<lambda>n. node_id n = ''b'') (st_nodes example_app) = Some example_plain"
  by (simp add: example_app_def example_source_def example_plain_def)


lemma example_missing: "''z'' \<notin> node_id ` set (st_nodes example_app)"
  by (simp add: example_app_def example_source_def example_plain_def)

section \<open>Prompt synthesis\<close>


lemma prompt_45_eq:
  "buildAnglePrompt settings_45 =
     join '' '' [PREAMBLE,
       ''Move the camera 45'' @ degree_sign
         @ '' to the right side of the subject, as if walking around them clockwise.'',
       ORIENTATION]"
  by (simp add: settings_45_def buildAnglePrompt_def rotate_right_def Math_abs_toString_def
      Number_toString.simps digit_char_def)

lemma prompt_30_eq:
  "buildAnglePrompt settings_30 =
     join '' '' [PREAMBLE,
       ''Move the camera 30'' @ degree_sign
         @ '' to the left side of the subject, as if walking around them counter-clockwise.'',
       ''Raise the camera viewpoint 20'' @ degree_sign
         @ '' higher, looking slightly down at the subject.'',
       ''Position the camera closer to the subject for a tighter frame.'',
       ''Use wide-angle lens perspective with slight barrel distortion at edges.'',
       ORIENTATION]"
  by (simp add: settings_30_def buildAnglePrompt_def rotate_left_def tilt_up_def
      Math_abs_toString_def Number_toString.simps digit_char_def CLOSER_TIGHT_def
      WIDE_ANGLE_def)

lemma prompt_45_rotation:
  "sublist ''to the right side of the subject, as if walking around them clockwise.''
     (buildAnglePrompt settings_45)"
  unfolding prompt_45_eq by code_simp

lemma prompt_45_no_raise:
  "\<not> sublist ''Raise the camera viewpoint '' (buildAnglePrompt settings_45)"
  unfolding prompt_45_eq by code_simp

lemma prompt_45_no_lower:
  "\<not> sublist ''Lower the camera viewpoint '' (buildAnglePrompt settings_45)"
  unfolding prompt_45_eq by code_simp

lemma prompt_45_no_tilt:
  "\<not> sublist (tilt_up t) (buildAnglePrompt settings_45)
   \<and> \<not> sublist (tilt_down t) (buildAnglePrompt settings_45)"
  using prompt_45_no_raise prompt_45_no_lower sublist_append_prefixD
  unfolding tilt_up_def tilt_down_def by blast

lemma prompt_45_no_scale:
  "\<not> sublist CLOSER_TIGHT (buildAnglePrompt settings_45)
   \<and> \<not> sublist SLIGHTLY_CLOSER (buildAnglePrompt settings_45)"
  unfolding prompt_45_eq by code_simp

lemma prompt_45_no_wide: "\<not> sublist WIDE_ANGLE (buildAnglePrompt settings_45)"
  unfolding prompt_45_eq by code_simp

lemma prompt_45_ends: "suffix ORIENTATION (buildAnglePrompt settings_45)"
  unfolding prompt_45_eq by code_simp

text \<open>
  C5. For \<open>{rotation: 45, tilt: 0, scale: 0, wideAngle: false}\<close> the prompt is the preamble,
  the directive to move 45 degrees to the right side, clockwise, and the orientation
  sentence, which ends it; it contains no tilt directive for any angle, neither scale
  directive and no wide-angle directive. For \<open>{rotation: -30, tilt: 20, scale: 60,
  wideAngle: true}\<close> the prompt is, in this order, the preamble, the directive to move 30
  degrees to the left, counter-clockwise, the directive to raise the viewpoint by 20
  degrees looking down, the tighter-frame directive, the wide-angle directive and the
  orientation sentence.
\<close>

theorem buildAnglePrompt_examples:
  "buildAnglePrompt settings_45 =
     join '' '' [PREAMBLE,
       ''Move the camera 45'' @ degree_sign
         @ '' to the right side of the subject, as if walking around them clockwise.'',
       ORIENTATION]
   \<and> sublist ''to the right side of the subject, as if walking around them clockwise.''
        (buildAnglePrompt settings_45)
   \<and> (\<forall>t. \<not> sublist (tilt_up t) (buildAnglePrompt settings_45)
          \<and> \<not> sublist (tilt_down t) (buildAnglePrompt settings_45))
   \<and> \<not> sublist CLOSER_TIGHT (buildAnglePrompt settings_45)
   \<and> \<not> sublist SLIGHTLY_CLOSER (buildAnglePrompt settings_45)
   \<and> \<not> sublist WIDE_ANGLE (buildAnglePrompt settings_45)
   \<and> suffix ORIENTATION (buildAnglePrompt settings_45)
   \<and> buildAnglePrompt settings_30 =
     join '' '' [PREAMBLE,
       ''Move the camera 30'' @ degree_sign
         @ '' to the left side of the subject, as if walking around them counter-clockwise.'',
       ''Raise the camera viewpoint 20'' @ degree_sign
         @ '' higher, looking slightly down at the subject.'',
       ''Position the camera closer to the subject for a tighter frame.'',
       ''Use wide-angle lens perspective with slight barrel distortion at edges.'',
       ORIENTATION]"
  using prompt_45_eq prompt_45_rotation prompt_45_no_tilt prompt_45_no_scale
    prompt_45_no_wide prompt_45_ends prompt_30_eq
  by blast

section \<open>Deriving a node from an image node\<close>

lemma handleImageToImage_found:
  assumes found: "find (\<lambda>n. node_id n = nodeId) nodes = Some S"
  shows "handleImageToImage randomUUID nodes nodeId =
     [SetNodes (\<lambda>prev. prev @ [\<lparr>
         node_id = randomUUID, node_type = IMAGE, node_x = node_x S + 340 + 100,
         node_y = node_y S, prompt = [], status = IDLE, model = ''Banana Pro'',
         imageModel = None, aspectRatio = Some ''Auto'', resolution = Some ''Auto'',
         parentIds = [nodeId], angleSettings = None, angleMode = None, otherProps = []\<rparr>]),
      SetSelectedNodeIds [randomUUID]]"
  using found by (simp add: handleImageToImage_def Let_def)

lemma handleImageToVideo_found:
  assumes found: "find (\<lambda>n. node_id n = nodeId) nodes = Some S"
  shows "handleImageToVideo randomUUID nodes nodeId =
     [SetNodes (\<lambda>prev. prev @ [\<lparr>
         node_id = randomUUID, node_type = VIDEO, node_x = node_x S + 340 + 100,
         node_y = node_y S, prompt = [], status = IDLE, model = ''Banana Pro'',
         imageModel = None, aspectRatio = Some ''Auto'', resolution = Some ''Auto'',
         parentIds = [nodeId], angleSettings = None, angleMode = None, otherProps = []\<rparr>]),
      SetSelectedNodeIds [randomUUID]]"
  using found by (simp add: handleImageToVideo_def Let_def)





text \<open>
  C6. When the source id names no node of the store, each of the three handlers makes no
  call at all: the store and the selection (and the frame callbacks and the trigger) are
  as before. The same holds for \<^verbatim>\<open>handleChangeAngleGenerate\<close> on a node without
  \<open>angleSettings\<close>.
\<close>

theorem derivations_noop:
  "(nodeId \<notin> node_id ` set (st_nodes st) \<longrightarrow>
      run (handleImageToImage randomUUID (st_nodes st) nodeId) st = st
    \<and> run (handleImageToVideo randomUUID (st_nodes st) nodeId) st = st
    \<and> run (handleChangeAngleGenerate randomUUID (st_nodes st) onGenerateNode nodeId) st = st)
   \<and> (find (\<lambda>n. node_id n = nodeId) (st_nodes st) = Some S \<and> angleSettings S = None \<longrightarrow>
      run (handleChangeAngleGenerate randomUUID (st_nodes st) onGenerateNode nodeId) st = st)"
  by (simp add: find_id_None handleImageToImage_def handleImageToVideo_def
      handleChangeAngleGenerate_def run_def)

theorem derivations_noop_witness:
  "''z'' \<notin> node_id ` set (st_nodes example_app)
   \<and> run (handleImageToImage ''u'' (st_nodes example_app) ''z'') example_app = example_app
   \<and> run (handleImageToVideo ''u'' (st_nodes example_app) ''z'') example_app = example_app
   \<and> run (handleChangeAngleGenerate ''u'' (st_nodes example_app) (Some ()) ''z'') example_app
       = example_app
   \<and> find (\<lambda>n. node_id n = ''b'') (st_nodes example_app) = Some example_plain
   \<and> angleSettings example_plain = None
   \<and> run (handleChangeAngleGenerate ''u'' (st_nodes example_app) (Some ()) ''b'') example_app
       = example_app"
proof -
  have no_settings: "angleSettings example_plain = None"
    by (simp add: example_plain_def)
  from derivations_noop [of "''z''" example_app "''u''" "Some ()" example_plain]
    derivations_noop [of "''b''" example_app "''u''" "Some ()" example_plain]
    example_missing example_find_b no_settings
  show ?thesis by blast
qed

section \<open>What the handlers leave alone\<close>

lemma handleChangeAngleGenerate_found:
  assumes found: "find (\<lambda>n. node_id n = nodeId) nodes = Some S"
    and settings: "angleSettings S = Some a"
  shows "handleChangeAngleGenerate randomUUID nodes onGenerateNode nodeId =
     [SetNodes (\<lambda>prev.
        map (\<lambda>n. if node_id n = nodeId then n\<lparr>angleMode := Some False\<rparr> else n) prev
        @ [\<lparr>node_id = randomUUID, node_type = IMAGE, node_x = node_x S + 340 + 100,
            node_y = node_y S, prompt = buildAnglePrompt a, status = IDLE,
            model = ''Banana Pro'', imageModel = Some ''gemini-pro'',
            aspectRatio = Some (or_default (aspectRatio S) ''Auto''),
            resolution = Some (or_default (resolution S) ''Auto''),
            parentIds = [nodeId], angleSettings = None, angleMode = None,
            otherProps = []\<rparr>]),
      SetSelectedNodeIds [randomUUID]]
     @ (case onGenerateNode of
          None \<Rightarrow> []
        | Some g \<Rightarrow> [RequestAnimationFrame
                       [RequestAnimationFrame [OnGenerateNode g randomUUID]]])"
  using found settings by (simp add: handleChangeAngleGenerate_def Let_def)

lemma handleImageToImage_nodes:
  "st_nodes (run (handleImageToImage randomUUID nodes nodeId) st) = st_nodes st
   \<or> (\<exists>N. st_nodes (run (handleImageToImage randomUUID nodes nodeId) st) = st_nodes st @ [N])"
proof (cases "find (\<lambda>n. node_id n = nodeId) nodes")
  case None
  then show ?thesis by (simp add: handleImageToImage_def run_def)
next
  case (Some S)
  show ?thesis
    unfolding handleImageToImage_found [OF Some] by (simp add: run_def)
qed

lemma handleImageToVideo_nodes:
  "st_nodes (run (handleImageToVideo randomUUID nodes nodeId) st) = st_nodes st
   \<or> (\<exists>N. st_nodes (run (handleImageToVideo randomUUID nodes nodeId) st) = st_nodes st @ [N])"
proof (cases "find (\<lambda>n. node_id n = nodeId) nodes")
  case None
  then show ?thesis by (simp add: handleImageToVideo_def run_def)
next
  case (Some S)
  show ?thesis
    unfolding handleImageToVideo_found [OF Some] by (simp add: run_def)
qed

lemma appended_frame:
  "ys = xs \<or> (\<exists>N. ys = xs @ [N]) \<Longrightarrow> prefix xs ys \<and> length ys \<le> Suc (length xs)"
  by auto

lemma handleChangeAngleGenerate_nodes:
  "st_nodes (run (handleChangeAngleGenerate randomUUID nodes onGenerateNode nodeId) st)
     = st_nodes st
   \<or> (\<exists>N. st_nodes (run (handleChangeAngleGenerate randomUUID nodes onGenerateNode nodeId) st)
         = map (\<lambda>n. if node_id n = nodeId then n\<lparr>angleMode := Some False\<rparr> else n) (st_nodes st)
           @ [N])"
proof (cases "find (\<lambda>n. node_id n = nodeId) nodes")
  case None
  then show ?thesis by (simp add: handleChangeAngleGenerate_def run_def)
next
  case found: (Some S)
  show ?thesis
  proof (cases "angleSettings S")
    case None
    with found show ?thesis by (simp add: handleChangeAngleGenerate_def run_def)
  next
    case (Some a)
    show ?thesis
      unfolding handleChangeAngleGenerate_found [OF found Some]
      by (cases onGenerateNode) (simp_all add: run_def)
  qed
qed

lemma angleMode_off_frame:
  "list_all2 (\<lambda>old new. new\<lparr>angleMode := angleMode old\<rparr> = old
                         \<and> (node_id old \<noteq> nodeId \<longrightarrow> new = old))
     prev (map (\<lambda>n. if node_id n = nodeId then n\<lparr>angleMode := Some False\<rparr> else n) prev)"
  by (induction prev) simp_all

lemma list_all2_same_frame:
  "list_all2 (\<lambda>old new. new\<lparr>angleMode := angleMode old\<rparr> = old
                         \<and> (node_id old \<noteq> nodeId \<longrightarrow> new = old)) prev prev"
  by (induction prev) simp_all

text \<open>
  C9. \<^verbatim>\<open>handleImageToImage\<close> and \<^verbatim>\<open>handleImageToVideo\<close> keep the nodes of the store as they
  are and in their order: the store before is a prefix of the store after, which has at
  most one node more, at the end. After \<^verbatim>\<open>handleChangeAngleGenerate\<close> the store has at most
  one node more, and the node at each earlier position differs from the one before in
  nothing but \<open>angleMode\<close>, and in nothing at all unless its id is the source id.
\<close>

theorem derivations_frame:
  "prefix (st_nodes st) (st_nodes (run (handleImageToImage randomUUID (st_nodes st) nodeId) st))
   \<and> length (st_nodes (run (handleImageToImage randomUUID (st_nodes st) nodeId) st))
       \<le> Suc (length (st_nodes st))
   \<and> prefix (st_nodes st) (st_nodes (run (handleImageToVideo randomUUID (st_nodes st) nodeId) st))
   \<and> length (st_nodes (run (handleImageToVideo randomUUID (st_nodes st) nodeId) st))
       \<le> Suc (length (st_nodes st))
   \<and> length (st_nodes
         (run (handleChangeAngleGenerate randomUUID (st_nodes st) onGenerateNode nodeId) st))
       \<le> Suc (length (st_nodes st))
   \<and> list_all2 (\<lambda>old new. new\<lparr>angleMode := angleMode old\<rparr> = old
                            \<and> (node_id old \<noteq> nodeId \<longrightarrow> new = old))
       (st_nodes st)
       (take (length (st_nodes st))
          (st_nodes
            (run (handleChangeAngleGenerate randomUUID (st_nodes st) onGenerateNode nodeId) st)))"
proof -
  have image: "prefix (st_nodes st)
      (st_nodes (run (handleImageToImage randomUUID (st_nodes st) nodeId) st))
    \<and> length (st_nodes (run (handleImageToImage randomUUID (st_nodes st) nodeId) st))
       \<le> Suc (length (st_nodes st))"
    by (rule appended_frame [OF handleImageToImage_nodes])
  have video: "prefix (st_nodes st)
      (st_nodes (run (handleImageToVideo randomUUID (st_nodes st) nodeId) st))
    \<and> length (st_nodes (run (handleImageToVideo randomUUID (st_nodes st) nodeId) st))
       \<le> Suc (length (st_nodes st))"
    by (rule appended_frame [OF handleImageToVideo_nodes])
  note angle_nodes =
    handleChangeAngleGenerate_nodes [of randomUUID "st_nodes st" onGenerateNode nodeId st]
  have angle: "length (st_nodes
         (run (handleChangeAngleGenerate randomUUID (st_nodes st) onGenerateNode nodeId) st))
       \<le> Suc (length (st_nodes st))
    \<and> list_all2 (\<lambda>old new. new\<lparr>angleMode := angleMode old\<rparr> = old
                            \<and> (node_id old \<noteq> nodeId \<longrightarrow> new = old))
       (st_nodes st)
       (take (length (st_nodes st))
          (st_nodes
            (run (handleChangeAngleGenerate randomUUID (st_nodes st) onGenerateNode nodeId) st)))"
    using angle_nodes
  proof
    assume same: "st_nodes
        (run (handleChangeAngleGenerate randomUUID (st_nodes st) onGenerateNode nodeId) st)
      = st_nodes st"
    show ?thesis
      unfolding same by (simp add: list_all2_same_frame)
  next
    assume "\<exists>N. st_nodes
           (run (handleChangeAngleGenerate randomUUID (st_nodes st) onGenerateNode nodeId) st)
         = map (\<lambda>n. if node_id n = nodeId then n\<lparr>angleMode := Some False\<rparr> else n) (st_nodes st)
           @ [N]"
    then obtain N where added: "st_nodes
           (run (handleChangeAngleGenerate randomUUID (st_nodes st) onGenerateNode nodeId) st)
         = map (\<lambda>n. if node_id n = nodeId then n\<lparr>angleMode := Some False\<rparr> else n) (st_nodes st)
           @ [N]" ..
    show ?thesis
      unfolding added by (simp add: angleMode_off_frame)
  qed
  from image video angle show ?thesis by blast
qed

theorem derivations_frame_witness:
  "node_id example_plain \<noteq> ''a''
   \<and> take (length (st_nodes example_app))
        (st_nodes (run (handleChangeAngleGenerate ''u'' (st_nodes example_app) (Some ()) ''a'')
           example_app)) ! 1
       = example_plain
   \<and> prefix (st_nodes example_app)
        (st_nodes (run (handleImageToImage ''u'' (st_nodes example_app) ''a'') example_app))"
proof -
  note frame_a = derivations_frame [of example_app "''u''" "''a''" "Some ()"]
  have other: "node_id example_plain \<noteq> ''a''"
    by (simp add: example_plain_def)
  have second: "st_nodes example_app ! 1 = example_plain"
    by (simp add: example_app_def)
  have len: "(1::nat) < length (st_nodes example_app)"
    by (simp add: example_app_def)
  from frame_a have "list_all2 (\<lambda>old new. new\<lparr>angleMode := angleMode old\<rparr> = old
                            \<and> (node_id old \<noteq> ''a'' \<longrightarrow> new = old))
       (st_nodes example_app)
       (take (length (st_nodes example_app))
          (st_nodes
            (run (handleChangeAngleGenerate ''u'' (st_nodes example_app) (Some ()) ''a'')
               example_app)))"
    by blast
  from list_all2_nthD [OF this len] second other
  have "take (length (st_nodes example_app))
        (st_nodes (run (handleChangeAngleGenerate ''u'' (st_nodes example_app) (Some ()) ''a'')
           example_app)) ! 1
       = example_plain"
    by simp
  with other frame_a show ?thesis by blast
qed

section \<open>Angle regeneration\<close>










lemma example_settings: "angleSettings example_source = Some settings_45"
  by (simp add: example_source_def)


section \<open>Scheduling the generation\<close>

lemma frame_idle: "st_frameCallbacks s = [] \<Longrightarrow> frame s = s"
  by (simp add: frame_def)

lemma frames_idle: "st_frameCallbacks s = [] \<Longrightarrow> (frame ^^ k) s = s"
  by (induction k) (simp_all add: frame_idle)

lemma frames_after_two: "(frame ^^ (k + 2)) s = (frame ^^ k) (frame (frame s))"
  by (simp add: funpow_swap1)

text \<open>
  C7. Let the source id name a node with angle settings, and let no animation frame
  callback be pending. With a trigger \<open>g\<close>, \<^verbatim>\<open>handleChangeAngleGenerate\<close> itself does not call
  it, and neither does the first animation frame after the handler; the second frame
  calls it once, on the new node's id, with the store the handler left, in which the
  new node is; no later frame calls it again. Without a trigger no callback is
  registered, no frame ever calls anything, and the store and the selection are the
  same as with a trigger: one node more than before.
\<close>

theorem generation_after_two_frames:
  assumes found: "find (\<lambda>n. node_id n = nodeId) (st_nodes st) = Some S"
    and settings: "angleSettings S = Some a"
    and idle: "st_frameCallbacks st = []"
  shows "st_triggered (run (handleChangeAngleGenerate randomUUID (st_nodes st) (Some g) nodeId) st)
           = st_triggered st
    \<and> st_triggered
        (frame (run (handleChangeAngleGenerate randomUUID (st_nodes st) (Some g) nodeId) st))
           = st_triggered st
    \<and> (\<forall>k. st_triggered ((frame ^^ (k + 2))
          (run (handleChangeAngleGenerate randomUUID (st_nodes st) (Some g) nodeId) st))
           = st_triggered st @ [(g, randomUUID, st_nodes
               (run (handleChangeAngleGenerate randomUUID (st_nodes st) (Some g) nodeId) st))])
    \<and> randomUUID \<in> node_id ` set (st_nodes
          (run (handleChangeAngleGenerate randomUUID (st_nodes st) (Some g) nodeId) st))
    \<and> st_frameCallbacks
          (run (handleChangeAngleGenerate randomUUID (st_nodes st) None nodeId) st) = []
    \<and> (\<forall>k. st_triggered ((frame ^^ k)
          (run (handleChangeAngleGenerate randomUUID (st_nodes st) None nodeId) st))
           = st_triggered st)
    \<and> st_nodes (run (handleChangeAngleGenerate randomUUID (st_nodes st) None nodeId) st)
        = st_nodes (run (handleChangeAngleGenerate randomUUID (st_nodes st) (Some g) nodeId) st)
    \<and> st_selectedNodeIds
          (run (handleChangeAngleGenerate randomUUID (st_nodes st) None nodeId) st)
        = st_selectedNodeIds
          (run (handleChangeAngleGenerate randomUUID (st_nodes st) (Some g) nodeId) st)
    \<and> length (st_nodes (run (handleChangeAngleGenerate randomUUID (st_nodes st) None nodeId) st))
        = Suc (length (st_nodes st))"
proof -
  define N :: "'a NodeData" where
    "N = \<lparr>node_id = randomUUID, node_type = IMAGE, node_x = node_x S + 340 + 100,
            node_y = node_y S, prompt = buildAnglePrompt a, status = IDLE,
            model = ''Banana Pro'', imageModel = Some ''gemini-pro'',
            aspectRatio = Some (or_default (aspectRatio S) ''Auto''),
            resolution = Some (or_default (resolution S) ''Auto''),
            parentIds = [nodeId], angleSettings = None, angleMode = None,
            otherProps = []\<rparr>"
  define final where
    "final = map (\<lambda>n. if node_id n = nodeId then n\<lparr>angleMode := Some False\<rparr> else n)
               (st_nodes st) @ [N]"
  define with_trigger where
    "with_trigger = run (handleChangeAngleGenerate randomUUID (st_nodes st) (Some g) nodeId) st"
  define without_trigger where
    "without_trigger = run (handleChangeAngleGenerate randomUUID (st_nodes st) None nodeId) st"
  have new_id: "node_id N = randomUUID"
    by (simp add: N_def)
  have handler: "with_trigger =
      st\<lparr>st_nodes := final, st_selectedNodeIds := [randomUUID],
         st_frameCallbacks := [[RequestAnimationFrame [OnGenerateNode g randomUUID]]]\<rparr>"
    unfolding with_trigger_def
      handleChangeAngleGenerate_found [OF found settings, of randomUUID "Some g", folded N_def]
    by (simp add: run_def idle final_def)
  have first_frame: "frame with_trigger =
      st\<lparr>st_nodes := final, st_selectedNodeIds := [randomUUID],
         st_frameCallbacks := [[OnGenerateNode g randomUUID]]\<rparr>"
    unfolding handler by (simp add: frame_def run_def)
  have second_frame: "frame (frame with_trigger) =
      st\<lparr>st_nodes := final, st_selectedNodeIds := [randomUUID],
         st_frameCallbacks := [],
         st_triggered := st_triggered st @ [(g, randomUUID, final)]\<rparr>"
    unfolding first_frame by (simp add: frame_def run_def)
  have later: "(frame ^^ (k + 2)) with_trigger = frame (frame with_trigger)" for k
    unfolding frames_after_two by (rule frames_idle) (simp add: second_frame)
  have no_trigger: "without_trigger =
      st\<lparr>st_nodes := final, st_selectedNodeIds := [randomUUID]\<rparr>"
    unfolding without_trigger_def
      handleChangeAngleGenerate_found [OF found settings, of randomUUID None, folded N_def]
    by (simp add: run_def final_def)
  have never: "(frame ^^ k) without_trigger = without_trigger" for k
    by (rule frames_idle) (simp add: no_trigger idle)
  have c1: "st_triggered with_trigger = st_triggered st"
    by (simp add: handler)
  have c2: "st_triggered (frame with_trigger) = st_triggered st"
    by (simp add: first_frame)
  have c3: "\<forall>k. st_triggered ((frame ^^ (k + 2)) with_trigger)
      = st_triggered st @ [(g, randomUUID, st_nodes with_trigger)]"
    unfolding later second_frame by (simp add: handler)
  have c4: "randomUUID \<in> node_id ` set (st_nodes with_trigger)"
    by (simp add: handler final_def new_id)
  have c5: "st_frameCallbacks without_trigger = []"
    by (simp add: no_trigger idle)
  have c6: "\<forall>k. st_triggered ((frame ^^ k) without_trigger) = st_triggered st"
    unfolding never by (simp add: no_trigger)
  have c7: "st_nodes without_trigger = st_nodes with_trigger"
    by (simp add: no_trigger handler)
  have c8: "st_selectedNodeIds without_trigger = st_selectedNodeIds with_trigger"
    by (simp add: no_trigger handler)
  have c9: "length (st_nodes without_trigger) = Suc (length (st_nodes st))"
    by (simp add: no_trigger final_def)
  from c1 c2 c3 c4 c5 c6 c7 c8 c9 show ?thesis
    unfolding with_trigger_def without_trigger_def by blast
qed

theorem generation_after_two_frames_witness:
  "find (\<lambda>n. node_id n = ''a'') (st_nodes example_app) = Some example_source
   \<and> angleSettings example_source = Some settings_45
   \<and> st_frameCallbacks example_app = []
   \<and> st_triggered example_app = []
   \<and> st_triggered (frame
        (run (handleChangeAngleGenerate ''u'' (st_nodes example_app) (Some ()) ''a'')
           example_app)) = st_triggered example_app
   \<and> st_triggered ((frame ^^ (0 + 2))
        (run (handleChangeAngleGenerate ''u'' (st_nodes example_app) (Some ()) ''a'')
           example_app))
       = st_triggered example_app @ [((), ''u'', st_nodes
           (run (handleChangeAngleGenerate ''u'' (st_nodes example_app) (Some ()) ''a'')
              example_app))]
   \<and> st_frameCallbacks
        (run (handleChangeAngleGenerate ''u'' (st_nodes example_app) None ''a'') example_app)
       = []"
proof -
  have idle: "st_frameCallbacks example_app = []"
    by (simp add: example_app_def)
  have none_yet: "st_triggered example_app = []"
    by (simp add: example_app_def)
  from generation_after_two_frames
      [OF example_find_a example_settings idle, of "''u''" "()"]
    example_find_a example_settings idle none_yet
  show ?thesis by blast
qed

section \<open>The context menu\<close>

lemma menu_after_snoc:
  "menu_after w (calls @ [c]) = menu_step w c (menu_after w calls)"
  by (simp add: menu_after_def)

lemma open_menus_cases:
  "open_menus s = (if isOpen s then [menu_type s] else [])"
  by (cases "menu_type s") (simp_all add: open_menus_def)

lemma open_call_state:
  assumes "is_open_call c"
  shows "isOpen (menu_step w c s)
    \<and> menu_x (menu_step w c s) = fst (requested_position w c)
    \<and> menu_y (menu_step w c s) = snd (requested_position w c)
    \<and> menu_type (menu_step w c s) = requested_type c
    \<and> sourceNodeId (menu_step w c s) = requested_source c"
  using assms
  by (cases c)
    (simp_all add: handleDoubleClick_def handleGlobalContextMenu_def handleToolbarAdd_def
      openConnectorMenu_def openNodeOptionsMenu_def)

lemma quiet_call_initial:
  assumes "\<not> is_open_call c" and "\<not> is_SetContextMenu c"
  shows "menu_step w c initialContextMenu = initialContextMenu"
  using assms
  by (cases c)
    (simp_all add: handleDoubleClick_def handleGlobalContextMenu_def closeContextMenu_def
      handleContextMenuSelect_def initialContextMenu_def)

lemma quiet_calls_initial:
  "\<forall>c \<in> set calls. \<not> is_open_call c \<and> \<not> is_SetContextMenu c \<Longrightarrow>
   fold (menu_step w) calls initialContextMenu = initialContextMenu"
  by (induction calls) (simp_all add: quiet_call_initial)

text \<open>
  C8. After any sequence of calls on the controller at most one menu is open. When the
  last call is an open call, the state is open and has the position, the type and the
  source node this call asks for, whatever the calls before it were, and the one open
  menu is of this type. In particular an open call for the global menu followed by
  \<^verbatim>\<open>openNodeOptionsMenu\<close> leaves exactly one open menu, of the node-options kind, at the
  pointer position of the second call and for its node.
\<close>

theorem context_menu_last_write_wins:
  "length (open_menus (menu_after w calls)) \<le> 1
   \<and> (is_open_call c \<longrightarrow>
        isOpen (menu_after w (calls @ [c]))
      \<and> menu_x (menu_after w (calls @ [c])) = fst (requested_position w c)
      \<and> menu_y (menu_after w (calls @ [c])) = snd (requested_position w c)
      \<and> menu_type (menu_after w (calls @ [c])) = requested_type c
      \<and> sourceNodeId (menu_after w (calls @ [c])) = requested_source c
      \<and> open_menus (menu_after w (calls @ [c])) = [requested_type c])
   \<and> (is_open_call c \<and> requested_type c = Global \<longrightarrow>
        menu_after w (calls @ [c, OpenNodeOptionsMenu e nodeId]) =
          \<lparr>isOpen = True, menu_x = clientX e, menu_y = clientY e, menu_type = NodeOptions,
           sourceNodeId = Some nodeId, connectorSide = None\<rparr>
      \<and> open_menus (menu_after w (calls @ [c, OpenNodeOptionsMenu e nodeId])) = [NodeOptions])"
proof -
  have at_most_one: "length (open_menus (menu_after w calls)) \<le> 1"
    by (simp add: open_menus_cases)
  have latest: "is_open_call c \<longrightarrow>
        isOpen (menu_after w (calls @ [c]))
      \<and> menu_x (menu_after w (calls @ [c])) = fst (requested_position w c)
      \<and> menu_y (menu_after w (calls @ [c])) = snd (requested_position w c)
      \<and> menu_type (menu_after w (calls @ [c])) = requested_type c
      \<and> sourceNodeId (menu_after w (calls @ [c])) = requested_source c
      \<and> open_menus (menu_after w (calls @ [c])) = [requested_type c]"
  proof
    assume "is_open_call c"
    from open_call_state [OF this, of w "menu_after w calls"]
    show "isOpen (menu_after w (calls @ [c]))
      \<and> menu_x (menu_after w (calls @ [c])) = fst (requested_position w c)
      \<and> menu_y (menu_after w (calls @ [c])) = snd (requested_position w c)
      \<and> menu_type (menu_after w (calls @ [c])) = requested_type c
      \<and> sourceNodeId (menu_after w (calls @ [c])) = requested_source c
      \<and> open_menus (menu_after w (calls @ [c])) = [requested_type c]"
      unfolding menu_after_snoc by (simp add: open_menus_cases)
  qed
  have "calls @ [c, OpenNodeOptionsMenu e nodeId] = (calls @ [c]) @ [OpenNodeOptionsMenu e nodeId]"
    by simp
  then have then_options:
    "menu_after w (calls @ [c, OpenNodeOptionsMenu e nodeId]) =
          \<lparr>isOpen = True, menu_x = clientX e, menu_y = clientY e, menu_type = NodeOptions,
           sourceNodeId = Some nodeId, connectorSide = None\<rparr>"
    by (simp only: menu_after_snoc menu_step.simps openNodeOptionsMenu_def)
  have "open_menus (menu_after w (calls @ [c, OpenNodeOptionsMenu e nodeId])) = [NodeOptions]"
    unfolding then_options by (simp add: open_menus_cases)
  with at_most_one latest then_options show ?thesis
    by blast
qed

theorem context_menu_last_write_wins_witness:
  "is_open_call (HandleDoubleClick example_click)
   \<and> requested_type (HandleDoubleClick example_click) = Global
   \<and> menu_after example_window
        ([OpenConnectorMenu ''a'' RightSide, CloseContextMenu]
         @ [HandleDoubleClick example_click, OpenNodeOptionsMenu example_node_click ''b'']) =
          \<lparr>isOpen = True, menu_x = clientX example_node_click,
           menu_y = clientY example_node_click, menu_type = NodeOptions,
           sourceNodeId = Some ''b'', connectorSide = None\<rparr>
   \<and> open_menus (menu_after example_window
        ([OpenConnectorMenu ''a'' RightSide, CloseContextMenu]
         @ [HandleDoubleClick example_click, OpenNodeOptionsMenu example_node_click ''b'']))
       = [NodeOptions]
   \<and> menu_type (menu_after example_window
        ([OpenConnectorMenu ''a'' RightSide, CloseContextMenu]
         @ [HandleDoubleClick example_click])) = Global"
proof -
  have opens: "is_open_call (HandleDoubleClick example_click)"
    by (simp add: example_click_def)
  have global: "requested_type (HandleDoubleClick example_click) = Global"
    by simp
  from context_menu_last_write_wins
      [of example_window "[OpenConnectorMenu ''a'' RightSide, CloseContextMenu]"
        "HandleDoubleClick example_click" example_node_click "''b''"]
    opens global
  show ?thesis by metis
qed

text \<open>
  C10. The state the controller starts with is closed, at \<open>(0, 0)\<close>, of the global type,
  with no source node and no connector side, so it shows no menu; and it stays so as
  long as no open call is made and the raw setter is not used. \<^verbatim>\<open>closeContextMenu\<close> sets
  \<open>isOpen\<close> to false and leaves the position, the type, the source node and the
  connector side as they were.
\<close>

theorem context_menu_initial_and_close:
  "menu_after w [] =
     \<lparr>isOpen = False, menu_x = 0, menu_y = 0, menu_type = Global,
      sourceNodeId = None, connectorSide = None\<rparr>
   \<and> open_menus (menu_after w []) = []
   \<and> ((\<forall>c \<in> set calls. \<not> is_open_call c \<and> \<not> is_SetContextMenu c) \<longrightarrow>
        menu_after w calls = menu_after w [])
   \<and> isOpen (closeContextMenu s) = False
   \<and> menu_x (closeContextMenu s) = menu_x s
   \<and> menu_y (closeContextMenu s) = menu_y s
   \<and> menu_type (closeContextMenu s) = menu_type s
   \<and> sourceNodeId (closeContextMenu s) = sourceNodeId s
   \<and> connectorSide (closeContextMenu s) = connectorSide s
   \<and> closeContextMenu s = s\<lparr>isOpen := False\<rparr>"
proof -
  have initial: "menu_after w [] =
     \<lparr>isOpen = False, menu_x = 0, menu_y = 0, menu_type = Global,
      sourceNodeId = None, connectorSide = None\<rparr>"
    by (simp add: menu_after_def initialContextMenu_def)
  have shown: "open_menus (menu_after w []) = []"
    unfolding initial by (simp add: open_menus_cases)
  have quiet: "(\<forall>c \<in> set calls. \<not> is_open_call c \<and> \<not> is_SetContextMenu c) \<longrightarrow>
        menu_after w calls = menu_after w []"
    by (simp add: menu_after_def quiet_calls_initial)
  have closing: "isOpen (closeContextMenu s) = False
   \<and> menu_x (closeContextMenu s) = menu_x s
   \<and> menu_y (closeContextMenu s) = menu_y s
   \<and> menu_type (closeContextMenu s) = menu_type s
   \<and> sourceNodeId (closeContextMenu s) = sourceNodeId s
   \<and> connectorSide (closeContextMenu s) = connectorSide s
   \<and> closeContextMenu s = s\<lparr>isOpen := False\<rparr>"
    by (simp add: closeContextMenu_def)
  from initial shown quiet closing show ?thesis
    by blast
qed

theorem context_menu_initial_and_close_witness:
  "\<not> is_open_call (HandleDoubleClick example_node_click)
   \<and> menu_after example_window
        [CloseContextMenu, HandleDoubleClick example_node_click, HandleContextMenuSelect True]
       = menu_after example_window []
   \<and> menu_x (closeContextMenu
        (menu_after example_window [OpenConnectorMenu ''a'' RightSide])) = 640"
proof -
  have not_open: "\<not> is_open_call (HandleDoubleClick example_node_click)"
    by (simp add: example_node_click_def)
  have quiet: "\<forall>c \<in> set [CloseContextMenu, HandleDoubleClick example_node_click,
        HandleContextMenuSelect True]. \<not> is_open_call c \<and> \<not> is_SetContextMenu c"
    by (simp add: example_node_click_def)
  have at_centre: "menu_x (menu_after example_window [OpenConnectorMenu ''a'' RightSide]) = 640"
    by (simp add: menu_after_def openConnectorMenu_def example_window_def)
  note at_example = context_menu_initial_and_close
      [of example_window
        "[CloseContextMenu, HandleDoubleClick example_node_click, HandleContextMenuSelect True]"
        "menu_after example_window [OpenConnectorMenu ''a'' RightSide]"]
  from at_example quiet have unchanged: "menu_after example_window
        [CloseContextMenu, HandleDoubleClick example_node_click, HandleContextMenuSelect True]
       = menu_after example_window []"
    by blast
  from at_example have "menu_x (closeContextMenu
        (menu_after example_window [OpenConnectorMenu ''a'' RightSide]))
      = menu_x (menu_after example_window [OpenConnectorMenu ''a'' RightSide])"
    by blast
  then have kept: "menu_x (closeContextMenu
        (menu_after example_window [OpenConnectorMenu ''a'' RightSide])) = 640"
    using at_centre by (rule trans)
  from not_open unchanged kept show ?thesis
    by (intro conjI)
qed

end
